theory Spec2Isabelle
  imports Complex_Main "HOL-Library.Char_ord" "HOL-Library.List_Lexorder"
begin

section \<open>Audero LSG: the extraction and normalisation functions of audero-lsg.js\<close>

text \<open>
  The development embeds \<^verbatim>\<open>src/audero-lsg.js\<close>. A JavaScript string is a
  \<^typ>\<open>string\<close>: a list of code units, here the code units below 256, ordered by
  their numeric value (the order the default \<^verbatim>\<open>Array.prototype.sort\<close> uses).
  The style-sheet parser (\<^verbatim>\<open>css\<close>) and the property aggregator
  (\<^verbatim>\<open>cssstats\<close>) are libraries outside the repository: their results, the
  parsed tree and the aggregated property lists, are the inputs of the model.
\<close>

subsection \<open>Characters and strings\<close>

text \<open>White space as \<^verbatim>\<open>String.prototype.trim\<close>, the regular-expression class
  \<^verbatim>\<open>\s\<close> and \<^verbatim>\<open>parseFloat\<close> read it: TAB, LF, VT, FF, CR, SP and NBSP
  (the members below 256).\<close>

definition isWhiteSpace :: "char \<Rightarrow> bool" where
  "isWhiteSpace c \<longleftrightarrow>
     c \<in> set [CHR 0x09, CHR 0x0A, CHR 0x0B, CHR 0x0C, CHR 0x0D, CHR '' '', CHR 0xA0]"

text \<open>The characters a regular-expression dot does not match.\<close>

definition isLineTerminator :: "char \<Rightarrow> bool" where
  "isLineTerminator c \<longleftrightarrow> c \<in> set [CHR 0x0A, CHR 0x0D]"

definition isDigit :: "char \<Rightarrow> bool" where
  "isDigit c \<longleftrightarrow> c \<in> set ''0123456789''"

definition digitValue :: "char \<Rightarrow> int" where
  "digitValue c = int (of_char c) - 48"

text \<open>\<^verbatim>\<open>[\dA-F]\<close> under the flag \<^verbatim>\<open>i\<close>.\<close>

definition isHexDigit :: "char \<Rightarrow> bool" where
  "isHexDigit c \<longleftrightarrow> c \<in> set ''0123456789ABCDEFabcdef''"

primrec startsWith :: "string \<Rightarrow> string \<Rightarrow> bool" where
  "startsWith s [] = True"
| "startsWith s (p # ps) = (case s of [] \<Rightarrow> False | c # cs \<Rightarrow> c = p \<and> startsWith cs ps)"

text \<open>\<^verbatim>\<open>String.prototype.indexOf\<close>: the first index at which the search string
  occurs, or -1.\<close>

primrec stringIndexOf :: "string \<Rightarrow> string \<Rightarrow> int" where
  "stringIndexOf [] p = (if p = [] then 0 else -1)"
| "stringIndexOf (c # cs) p =
     (if startsWith (c # cs) p then 0
      else (let i = stringIndexOf cs p in if i < 0 then -1 else i + 1))"

text \<open>\<^verbatim>\<open>String.prototype.split\<close> with a separator of one character.\<close>

primrec split :: "char \<Rightarrow> string \<Rightarrow> string list" where
  "split sep [] = [[]]"
| "split sep (c # cs) =
     (if c = sep then [] # split sep cs
      else (case split sep cs of [] \<Rightarrow> [[c]] | t # ts \<Rightarrow> (c # t) # ts))"

definition trim :: "string \<Rightarrow> string" where
  "trim s = rev (dropWhile isWhiteSpace (rev (dropWhile isWhiteSpace s)))"

subsection \<open>Arrays\<close>

text \<open>\<^verbatim>\<open>Array.prototype.indexOf\<close> and \<^verbatim>\<open>Array.prototype.filter\<close> with a
  callback that reads the element and its index.\<close>

primrec indexOf :: "'a list \<Rightarrow> 'a \<Rightarrow> int" where
  "indexOf [] v = -1"
| "indexOf (x # xs) v =
     (if x = v then 0 else (let i = indexOf xs v in if i < 0 then -1 else i + 1))"

primrec filterIndexed :: "('a \<Rightarrow> int \<Rightarrow> bool) \<Rightarrow> int \<Rightarrow> 'a list \<Rightarrow> 'a list" where
  "filterIndexed f i [] = []"
| "filterIndexed f i (x # xs) =
     (if f x i then x # filterIndexed f (i + 1) xs else filterIndexed f (i + 1) xs)"

text \<open>\<^verbatim>\<open>Array.prototype.pop\<close>, read for its result: the last element, or
  \<^verbatim>\<open>undefined\<close> (here \<^const>\<open>None\<close>) on an empty array.\<close>

definition pop :: "'a list \<Rightarrow> 'a option" where
  "pop xs = (if xs = [] then None else Some (last xs))"

definition unique :: "'a list \<Rightarrow> 'a list" where
  "unique array = filterIndexed (\<lambda>element index. indexOf array element = index) 0 array"

subsection \<open>Numbers\<close>

text \<open>
  A JavaScript number is modelled as an exact decimal fraction: \<open>Dec m e\<close> is
  \<open>m * 10 ^ e\<close>. The program reads numbers from decimal literals, multiplies them,
  divides by the literal 100 and subtracts, so every value it computes is such a
  fraction; the model computes with the exact value where IEEE 754 binary64 would round
  (the two agree where every intermediate value is representable, as for the integers and
  the short decimal fractions of a style sheet). Negative zero is the same value as zero:
  the program never divides by it and prints both as \<^verbatim>\<open>0\<close>.
\<close>

datatype jsnum = NaN | PosInf | NegInf | Dec int int

definition num_sgn :: "jsnum \<Rightarrow> int" where
  "num_sgn x = (case x of NaN \<Rightarrow> 0 | PosInf \<Rightarrow> 1 | NegInf \<Rightarrow> -1 | Dec m e \<Rightarrow> sgn m)"

definition num_mul :: "jsnum \<Rightarrow> jsnum \<Rightarrow> jsnum" where
  "num_mul x y =
     (case (x, y) of
        (NaN, _) \<Rightarrow> NaN
      | (_, NaN) \<Rightarrow> NaN
      | (Dec m1 e1, Dec m2 e2) \<Rightarrow> Dec (m1 * m2) (e1 + e2)
      | _ \<Rightarrow> (let s = num_sgn x * num_sgn y
              in if s = 0 then NaN else if 0 < s then PosInf else NegInf))"

definition num_sub :: "jsnum \<Rightarrow> jsnum \<Rightarrow> jsnum" where
  "num_sub x y =
     (case (x, y) of
        (NaN, _) \<Rightarrow> NaN
      | (_, NaN) \<Rightarrow> NaN
      | (Dec m1 e1, Dec m2 e2) \<Rightarrow>
          (let e = min e1 e2
           in Dec (m1 * 10 ^ nat (e1 - e) - m2 * 10 ^ nat (e2 - e)) e)
      | (PosInf, PosInf) \<Rightarrow> NaN
      | (NegInf, NegInf) \<Rightarrow> NaN
      | (PosInf, _) \<Rightarrow> PosInf
      | (NegInf, _) \<Rightarrow> NegInf
      | (_, PosInf) \<Rightarrow> NegInf
      | (_, NegInf) \<Rightarrow> PosInf)"

text \<open>The quotient \<^verbatim>\<open>x / 100\<close>.\<close>

definition num_div100 :: "jsnum \<Rightarrow> jsnum" where
  "num_div100 x = (case x of Dec m e \<Rightarrow> Dec m (e - 2) | _ \<Rightarrow> x)"

text \<open>The decimal digits of a natural number, and a mantissa without its trailing
  zeros.\<close>

definition digitChar :: "nat \<Rightarrow> char" where
  "digitChar d = ''0123456789'' ! d"

function natDigits :: "nat \<Rightarrow> string" where
  "natDigits n =
     (if n < 10 then [digitChar n] else natDigits (n div 10) @ [digitChar (n mod 10)])"
  by pat_completeness auto
termination
  by (relation "measure id") auto

function stripZeros :: "nat \<Rightarrow> int \<Rightarrow> nat \<times> int" where
  "stripZeros m e =
     (if m \<noteq> 0 \<and> m mod 10 = 0 then stripZeros (m div 10) (e + 1) else (m, e))"
  by pat_completeness auto
termination
  by (relation "measure fst") auto

declare natDigits.simps [simp del] stripZeros.simps [simp del]

text \<open>
  \<^verbatim>\<open>Number::toString\<close> (ECMA-262), as the concatenation \<^verbatim>\<open>x + 'px'\<close>
  applies it: with \<open>s\<close> the digits of the value without trailing zeros, \<open>k\<close> their
  count and \<open>n\<close> the position of the decimal point, the value is written without an
  exponent when \<open>-6 < n \<le> 21\<close>.
\<close>

definition positiveToString :: "nat \<Rightarrow> int \<Rightarrow> string" where
  "positiveToString m e =
     (let (s, e') = stripZeros m e;
          ds = natDigits s;
          k = int (length ds);
          n = k + e'
      in if k \<le> n \<and> n \<le> 21 then ds @ replicate (nat (n - k)) CHR ''0''
         else if 0 < n \<and> n \<le> 21 then take (nat n) ds @ ''.'' @ drop (nat n) ds
         else if -6 < n \<and> n \<le> 0 then ''0.'' @ replicate (nat (- n)) CHR ''0'' @ ds
         else (let ex = (if 0 \<le> n - 1 then ''+'' else ''-'') @ natDigits (nat \<bar>n - 1\<bar>)
               in if k = 1 then ds @ ''e'' @ ex
                  else take 1 ds @ ''.'' @ drop 1 ds @ ''e'' @ ex))"

definition num_to_string :: "jsnum \<Rightarrow> string" where
  "num_to_string x =
     (case x of
        NaN \<Rightarrow> ''NaN''
      | PosInf \<Rightarrow> ''Infinity''
      | NegInf \<Rightarrow> ''-Infinity''
      | Dec m e \<Rightarrow>
          (if m = 0 then ''0''
           else if m < 0 then ''-'' @ positiveToString (nat (- m)) e
           else positiveToString (nat m) e))"

text \<open>
  \<^verbatim>\<open>parseFloat\<close> on a string: leading white space is skipped and the longest
  prefix that is a \<^verbatim>\<open>StrDecimalLiteral\<close> is read (a sign, then
  \<^verbatim>\<open>Infinity\<close> or digits with an optional fraction and an optional exponent);
  \<^verbatim>\<open>NaN\<close> when there is no such prefix.
\<close>

definition digitsValue :: "string \<Rightarrow> int" where
  "digitsValue ds = foldl (\<lambda>a c. 10 * a + digitValue c) 0 ds"

definition exponentPart :: "string \<Rightarrow> int" where
  "exponentPart s =
     (case s of
        [] \<Rightarrow> 0
      | c # r \<Rightarrow>
          if c = CHR ''e'' \<or> c = CHR ''E'' then
            (case r of
               [] \<Rightarrow> 0
             | d # r' \<Rightarrow>
                 if d = CHR ''+'' then digitsValue (takeWhile isDigit r')
                 else if d = CHR ''-'' then - digitsValue (takeWhile isDigit r')
                 else digitsValue (takeWhile isDigit r))
          else 0)"

definition parseFloat :: "string \<Rightarrow> jsnum" where
  "parseFloat input =
     (let s = dropWhile isWhiteSpace input;
          negative = startsWith s ''-'';
          s1 = (if startsWith s ''-'' \<or> startsWith s ''+'' then tl s else s)
      in if startsWith s1 ''Infinity'' then (if negative then NegInf else PosInf)
         else
          (let ip = takeWhile isDigit s1;
               r1 = dropWhile isDigit s1;
               fp = (if startsWith r1 ''.'' then takeWhile isDigit (tl r1) else []);
               r2 = (if startsWith r1 ''.'' then dropWhile isDigit (tl r1) else r1);
               m = digitsValue (ip @ fp)
           in if ip = [] \<and> fp = [] then NaN
              else Dec (if negative then - m else m) (exponentPart r2 - int (length fp))))"

subsection \<open>Sorting with a comparison function\<close>

text \<open>
  \<^verbatim>\<open>Array.prototype.sort\<close> with a comparison function, as a stable insertion
  sort. An element moves behind another one only when the comparison function returns a
  positive number; \<^verbatim>\<open>NaN\<close> counts as zero (\<^verbatim>\<open>SortCompare\<close>). For a
  comparison function that is a consistent ordering every stable sort returns this
  list; for another one ECMA-262 leaves the order to the implementation.
\<close>

definition isPositive :: "jsnum \<Rightarrow> bool" where
  "isPositive v \<longleftrightarrow> 0 < num_sgn v"

primrec insertBy :: "('a \<Rightarrow> 'a \<Rightarrow> jsnum) \<Rightarrow> 'a \<Rightarrow> 'a list \<Rightarrow> 'a list" where
  "insertBy cmp x [] = [x]"
| "insertBy cmp x (y # ys) =
     (if isPositive (cmp x y) then y # insertBy cmp x ys else x # y # ys)"

definition sortBy :: "('a \<Rightarrow> 'a \<Rightarrow> jsnum) \<Rightarrow> 'a list \<Rightarrow> 'a list" where
  "sortBy cmp xs = foldr (insertBy cmp) xs []"

subsection \<open>The constants and helpers of the module\<close>


definition excludedValues :: "string list" where
  "excludedValues = [''auto'', ''inherit'', ''initial'', ''none'']"


text \<open>The test of \<^verbatim>\<open>/^#([\dA-F]{3}|[\dA-F]{6})$/i\<close>: a \<^verbatim>\<open>#\<close>, then three
  or six hexadecimal digits, then the end of the string.\<close>

definition hexColorTest :: "string \<Rightarrow> bool" where
  "hexColorTest color =
     (case color of
        [] \<Rightarrow> False
      | c # r \<Rightarrow> c = CHR ''#'' \<and>
          ((length r = 3 \<and> list_all isHexDigit r) \<or> (length r = 6 \<and> list_all isHexDigit r)))"

definition isHackyColor :: "string \<Rightarrow> bool" where
  "isHackyColor color =
     (if stringIndexOf color ''#'' \<noteq> 0 then False else \<not> hexColorTest color)"


text \<open>
  \<^verbatim>\<open>item.replace(/([-\d.]+).*/, '')\<close>: the first run of characters among the
  digits, \<^verbatim>\<open>-\<close> and \<^verbatim>\<open>.\<close> is removed together with everything that follows
  it up to the end of the line (the dot matches no line terminator). What is left is
  the text before that run and the text from the next line terminator on.
\<close>

definition isNumberChar :: "char \<Rightarrow> bool" where
  "isNumberChar c \<longleftrightarrow> c = CHR ''-'' \<or> isDigit c \<or> c = CHR ''.''"

definition removeNumberAndRest :: "string \<Rightarrow> string" where
  "removeNumberAndRest item =
     takeWhile (\<lambda>c. \<not> isNumberChar c) item
       @ dropWhile (\<lambda>c. \<not> isLineTerminator c) (dropWhile (\<lambda>c. \<not> isNumberChar c) item)"

text \<open>
  \<^verbatim>\<open>String.prototype.localeCompare\<close> depends on the collation of the host. It is
  the parameter \<open>localeCompare\<close> of \<open>sortUnitValues\<close>.
\<close>

definition sortUnitValues :: "(string \<Rightarrow> string \<Rightarrow> int) \<Rightarrow> string \<Rightarrow> string \<Rightarrow> jsnum" where
  "sortUnitValues localeCompare item1 item2 =
     (let unit1 = removeNumberAndRest item1;
          unit2 = removeNumberAndRest item2
      in if unit1 \<noteq> unit2 then Dec (localeCompare unit1 unit2) 0
         else num_sub (parseFloat item1) (parseFloat item2))"

subsection \<open>The parsed tree and the aggregated properties\<close>

text \<open>
  The nodes the parser returns, as far as the program reads them. A rule of another type
  than \<^verbatim>\<open>rule\<close> and \<^verbatim>\<open>font-face\<close> (a comment, a media query, keyframes) is
  \<open>OtherRule\<close> with its type: the program filters on the type before it reads anything
  else of a rule. A block holds declarations and comments.
\<close>

datatype cssdecl = Declaration (property: string) (decl_value: string) | Comment string

datatype rule =
    Rule (selectors: "string list") (rule_declarations: "cssdecl list")
  | FontFace (fontface_declarations: "cssdecl list")
  | OtherRule string

text \<open>
  \<open>properties\<close> is \<^verbatim>\<open>statistics.declarations.properties\<close>: for a property that
  occurs, the values given to it in source order. \<open>getAllFontSizes\<close> and
  \<open>getAllFontFamilies\<close> are the results of the aggregator's methods of these names.
\<close>

record StyleGuide =
  cssAst :: "rule list"
  properties :: "string \<Rightarrow> string list option"
  getAllFontSizes :: "string list"
  getAllFontFamilies :: "string list"


definition isDeclarationOf :: "string \<Rightarrow> cssdecl \<Rightarrow> bool" where
  "isDeclarationOf p d = (case d of Declaration q v \<Rightarrow> q = p | Comment c \<Rightarrow> False)"

definition blockDeclarations :: "rule \<Rightarrow> cssdecl list" where
  "blockDeclarations r = (case r of Rule sels ds \<Rightarrow> ds | FontFace ds \<Rightarrow> ds | OtherRule t \<Rightarrow> [])"



definition filterScalableFontSizes :: "(string \<Rightarrow> string \<Rightarrow> int) \<Rightarrow> string list \<Rightarrow> string list" where
  "filterScalableFontSizes localeCompare fontSizes =
     rev (sortBy (sortUnitValues localeCompare)
       (filter (\<lambda>size. stringIndexOf size ''rem'' < 0 \<and> stringIndexOf size ''px'' < 0)
          fontSizes))"

subsection \<open>Colors\<close>

definition propertyValues :: "StyleGuide \<Rightarrow> string \<Rightarrow> string list" where
  "propertyValues styleGuide p = (case properties styleGuide p of None \<Rightarrow> [] | Some vs \<Rightarrow> vs)"

text \<open>
  \<^verbatim>\<open>getBackgroundColors\<close> and \<^verbatim>\<open>getColorColors\<close> have the same body but for
  the name of the property they read; \<open>extractColors\<close> is that body, on the values of the
  property (\<open>propertyValues\<close> is \<^verbatim>\<open>properties[p] || []\<close>).
\<close>

definition extractColors :: "string list \<Rightarrow> string list" where
  "extractColors values =
     (let colors = filter (\<lambda>v. v \<noteq> []) values
      in if length colors = 0 then colors
         else sort (filter (\<lambda>item. indexOf excludedValues item < 0)
                (unique (filter (\<lambda>color. \<not> isHackyColor color) colors))))"

definition getBackgroundColors :: "StyleGuide \<Rightarrow> string list" where
  "getBackgroundColors styleGuide = extractColors (propertyValues styleGuide ''background-color'')"

definition getColorColors :: "StyleGuide \<Rightarrow> string list" where
  "getColorColors styleGuide = extractColors (propertyValues styleGuide ''color'')"

definition getColors :: "StyleGuide \<Rightarrow> string list" where
  "getColors styleGuide =
     sort (unique (getColorColors styleGuide @ getBackgroundColors styleGuide))"

subsection \<open>Font sizes and font families\<close>

definition getFontSizes :: "StyleGuide \<Rightarrow> string list" where
  "getFontSizes styleGuide =
     filter (\<lambda>item. indexOf excludedValues item < 0) (unique (getAllFontSizes styleGuide))"

definition getFontFamilies :: "StyleGuide \<Rightarrow> string list" where
  "getFontFamilies styleGuide = getAllFontFamilies styleGuide"

definition splitFonts :: "string list \<Rightarrow> string list" where
  "splitFonts families =
     foldl (\<lambda>previous fontFamily. previous @ map trim (split CHR '','' fontFamily)) [] families"

definition getFontsInUse :: "StyleGuide \<Rightarrow> string list" where
  "getFontsInUse styleGuide = sort (unique (splitFonts (getFontFamilies styleGuide)))"

subsection \<open>Font faces\<close>

text \<open>
  The object \<^verbatim>\<open>hash\<close> is an association list in insertion order. An assignment
  \<^verbatim>\<open>hash[key] = value\<close> keeps the place of a key that is already there. The key
  \<^verbatim>\<open>__proto__\<close> is the accessor of \<^verbatim>\<open>Object.prototype\<close>, whose setter
  ignores a string: the assignment adds no property. \<^verbatim>\<open>Object.keys\<close> lists the
  keys that are array indices first, in ascending numeric order, then the other keys in
  insertion order.
\<close>

type_synonym hash = "(string \<times> string) list"

primrec hashUpdate :: "string \<Rightarrow> string \<Rightarrow> hash \<Rightarrow> hash" where
  "hashUpdate k v [] = [(k, v)]"
| "hashUpdate k v (p # ps) = (if fst p = k then (k, v) # ps else p # hashUpdate k v ps)"

definition hashSet :: "hash \<Rightarrow> string \<Rightarrow> string \<Rightarrow> hash" where
  "hashSet h k v = (if k = ''__proto__'' then h else hashUpdate k v h)"

definition isArrayIndex :: "string \<Rightarrow> bool" where
  "isArrayIndex k \<longleftrightarrow>
     k \<noteq> [] \<and> list_all isDigit k \<and> (k = ''0'' \<or> \<not> startsWith k ''0'')
       \<and> digitsValue k < 4294967295"

definition objectKeys :: "hash \<Rightarrow> string list" where
  "objectKeys h =
     sort_key digitsValue (filter isArrayIndex (map fst h))
       @ filter (\<lambda>k. \<not> isArrayIndex k) (map fst h)"

text \<open>A property key from the result of \<^verbatim>\<open>pop\<close>: \<^verbatim>\<open>undefined\<close> is the key
  \<^verbatim>\<open>"undefined"\<close>.\<close>

definition toPropertyKey :: "string option \<Rightarrow> string" where
  "toPropertyKey v = (case v of None \<Rightarrow> ''undefined'' | Some s \<Rightarrow> s)"

text \<open>
  The match of \<^verbatim>\<open>/url\s*\(['"]?(.*?)(?:\?.*)?['"]?\)/i\<close>, read for its first group.

  \<open>closesUrl r\<close>: the part of the expression after the group matches at the start of
  \<open>r\<close>. Either the optional \<^verbatim>\<open>(?:\?.*)\<close> is taken, a question mark with a closing
  parenthesis somewhere behind it on the same line, or it is skipped and \<open>r\<close> starts
  with a closing parenthesis, or with a quote and a closing parenthesis.

  \<open>lazyGroup r\<close>: the group \<^verbatim>\<open>(.*?)\<close> takes the fewest characters, none of them a
  line terminator, after which the rest of the expression matches.

  \<open>urlMatchAt s\<close>: a match that starts at the start of \<open>s\<close>; the optional quote is
  taken first and given back when nothing matches behind it.
  \<open>urlMatch s\<close>: the leftmost match, \<^const>\<open>None\<close> for \<^verbatim>\<open>null\<close>.
\<close>

definition isQuote :: "char \<Rightarrow> bool" where
  "isQuote c \<longleftrightarrow> c = CHR 0x27 \<or> c = CHR 0x22"

definition closesUrl :: "string \<Rightarrow> bool" where
  "closesUrl r =
     (case r of
        [] \<Rightarrow> False
      | c # cs \<Rightarrow>
          (c = CHR ''?'' \<and> CHR '')'' \<in> set (takeWhile (\<lambda>x. \<not> isLineTerminator x) cs))
          \<or> c = CHR '')''
          \<or> (isQuote c \<and> startsWith cs '')''))"

primrec lazyGroup :: "string \<Rightarrow> string option" where
  "lazyGroup [] = None"
| "lazyGroup (c # cs) =
     (if closesUrl (c # cs) then Some []
      else if isLineTerminator c then None
      else map_option ((#) c) (lazyGroup cs))"

definition startsWithUrl :: "string \<Rightarrow> bool" where
  "startsWithUrl s =
     (case s of
        a # b # c # r \<Rightarrow>
          (a = CHR ''u'' \<or> a = CHR ''U'') \<and> (b = CHR ''r'' \<or> b = CHR ''R'')
            \<and> (c = CHR ''l'' \<or> c = CHR ''L'')
      | _ \<Rightarrow> False)"

definition urlMatchAt :: "string \<Rightarrow> string option" where
  "urlMatchAt s =
     (if startsWithUrl s then
        (case dropWhile isWhiteSpace (drop 3 s) of
           [] \<Rightarrow> None
         | p # r \<Rightarrow>
             if p = CHR ''('' then
               (case (case r of [] \<Rightarrow> None
                      | q # r' \<Rightarrow> if isQuote q then lazyGroup r' else None) of
                  Some g \<Rightarrow> Some g
                | None \<Rightarrow> lazyGroup r)
             else None)
      else None)"

primrec urlMatch :: "string \<Rightarrow> string option" where
  "urlMatch [] = None"
| "urlMatch (c # cs) =
     (case urlMatchAt (c # cs) of Some g \<Rightarrow> Some g | None \<Rightarrow> urlMatch cs)"

datatype error = TypeError

text \<open>
  The expression \<^verbatim>\<open>url.match(urlRegex)[1]\<close> of the \<^verbatim>\<open>try\<close> block: it raises
  when \<^verbatim>\<open>url\<close> is \<^verbatim>\<open>undefined\<close> and when the match is \<^verbatim>\<open>null\<close>.
\<close>

definition firstUrl :: "string option \<Rightarrow> error + string" where
  "firstUrl url =
     (case url of
        None \<Rightarrow> Inl TypeError
      | Some u \<Rightarrow> (case urlMatch u of None \<Rightarrow> Inl TypeError | Some g \<Rightarrow> Inr g))"

definition lastValueOf :: "string \<Rightarrow> cssdecl list \<Rightarrow> string option" where
  "lastValueOf p ds = pop (map decl_value (filter (isDeclarationOf p) ds))"

text \<open>The callback of \<^verbatim>\<open>forEach\<close>, with its \<^verbatim>\<open>try\<close> and \<^verbatim>\<open>catch\<close>.\<close>

definition addFontFace :: "hash \<Rightarrow> rule \<Rightarrow> hash" where
  "addFontFace h declarationBlock =
     (let fontFamily = lastValueOf ''font-family'' (blockDeclarations declarationBlock);
          url = lastValueOf ''src'' (blockDeclarations declarationBlock)
      in case firstUrl url of
           Inr u \<Rightarrow> hashSet h (toPropertyKey fontFamily) u
         | Inl ex \<Rightarrow> hashSet h (toPropertyKey fontFamily) [])"

definition isFontFace :: "rule \<Rightarrow> bool" where
  "isFontFace r = (case r of FontFace ds \<Rightarrow> True | _ \<Rightarrow> False)"

definition getFontUrls :: "StyleGuide \<Rightarrow> hash" where
  "getFontUrls styleGuide = foldl addFontFace [] (filter isFontFace (cssAst styleGuide))"

definition getFontsNotInUse :: "StyleGuide \<Rightarrow> string list" where
  "getFontsNotInUse styleGuide =
     (let fontUrls = getFontUrls styleGuide;
          declaredFonts = unique (splitFonts (getFontsInUse styleGuide))
      in filter (\<lambda>font. indexOf declaredFonts font < 0) (objectKeys fontUrls))"

definition getFonts :: "StyleGuide \<Rightarrow> string list" where
  "getFonts styleGuide = getFontsInUse styleGuide @ getFontsNotInUse styleGuide"

subsection \<open>Spacings\<close>

text \<open>
  \<^verbatim>\<open>(properties.margin || []).concat(properties.padding)\<close> holds the element
  \<^verbatim>\<open>undefined\<close> when there is no padding, so the array is one of values that are a
  string or \<^verbatim>\<open>undefined\<close>. \<^verbatim>\<open>value.split(' ')\<close> raises on
  \<^verbatim>\<open>undefined\<close>.
\<close>

datatype jsval = Undefined | Str string

definition truthy :: "jsval \<Rightarrow> bool" where
  "truthy v = (case v of Undefined \<Rightarrow> False | Str s \<Rightarrow> s \<noteq> [])"

definition splitValue :: "jsval \<Rightarrow> error + string list" where
  "splitValue v = (case v of Undefined \<Rightarrow> Inl TypeError | Str s \<Rightarrow> Inr (split CHR '' '' s))"

definition addTokens :: "error + string list \<Rightarrow> jsval \<Rightarrow> error + string list" where
  "addTokens previous v =
     (case previous of
        Inl ex \<Rightarrow> Inl ex
      | Inr p \<Rightarrow> (case splitValue v of Inl ex \<Rightarrow> Inl ex | Inr ts \<Rightarrow> Inr (p @ ts)))"

definition getSpacings :: "(string \<Rightarrow> string \<Rightarrow> int) \<Rightarrow> StyleGuide \<Rightarrow> error + string list" where
  "getSpacings localeCompare styleGuide =
     (let spacings =
            filter truthy
              ((case properties styleGuide ''margin'' of None \<Rightarrow> [] | Some m \<Rightarrow> map Str m)
               @ (case properties styleGuide ''padding'' of
                    None \<Rightarrow> [Undefined] | Some p \<Rightarrow> map Str p))
      in if length spacings = 0 then Inr []
         else
           (case foldl addTokens (Inr []) spacings of
              Inl ex \<Rightarrow> Inl ex
            | Inr tokens \<Rightarrow>
                Inr (rev (sortBy (sortUnitValues localeCompare)
                       (filter (\<lambda>item. indexOf excludedValues item < 0) (unique tokens))))))"

section \<open>Specification-level notions\<close>

text \<open>
  \<open>keepNew seen xs\<close> keeps the elements of \<open>xs\<close> that occur neither in \<open>seen\<close> nor
  earlier in \<open>xs\<close>: the first occurrences.
\<close>

primrec keepNew :: "'a list \<Rightarrow> 'a list \<Rightarrow> 'a list" where
  "keepNew seen [] = []"
| "keepNew seen (x # xs) =
     (if x \<in> set seen then keepNew (seen @ [x]) xs else x # keepNew (seen @ [x]) xs)"

text \<open>
  The remainder of a well-formed hexadecimal color behind its \<^verbatim>\<open>#\<close>: exactly three
  or exactly six hexadecimal digits.
\<close>

definition hexDigits3or6 :: "string \<Rightarrow> bool" where
  "hexDigits3or6 r \<longleftrightarrow> (length r = 3 \<or> length r = 6) \<and> list_all isHexDigit r"

text \<open>
  The key and the value the callback of \<open>getFontUrls\<close> stores for a rule: the value of
  the last \<^verbatim>\<open>font-family\<close> declaration as it stands (\<^verbatim>\<open>undefined\<close> without
  one), and the first group of the match in the last \<^verbatim>\<open>src\<close> declaration, or the
  empty string when the \<^verbatim>\<open>try\<close> block raised.
\<close>

definition fontFaceKey :: "rule \<Rightarrow> string" where
  "fontFaceKey r = toPropertyKey (lastValueOf ''font-family'' (blockDeclarations r))"

definition fontFaceUrl :: "rule \<Rightarrow> string" where
  "fontFaceUrl r =
     (case firstUrl (lastValueOf ''src'' (blockDeclarations r)) of Inl ex \<Rightarrow> [] | Inr u \<Rightarrow> u)"

text \<open>
  The tokens of the spacings: the non-empty values of \<^verbatim>\<open>margin\<close> and
  \<^verbatim>\<open>padding\<close>, each split at its space characters.
\<close>

definition spacingTokens :: "StyleGuide \<Rightarrow> string list" where
  "spacingTokens sg =
     concat (map (split CHR '' '')
       (filter (\<lambda>v. v \<noteq> []) (propertyValues sg ''margin'' @ propertyValues sg ''padding'')))"


text \<open>
  The unit of a token as the documentation of \<open>sortUnitValues\<close> means it: what is left
  behind the leading number, a sign, digits and a fraction. \<open>sortUnitValuesSpec\<close> is the
  comparison that documentation describes: by the units when they differ, by the numbers
  otherwise.
\<close>

definition unitSuffix :: "string \<Rightarrow> string" where
  "unitSuffix item =
     (let s1 = (if startsWith item ''-'' \<or> startsWith item ''+'' then tl item else item);
          s2 = dropWhile isDigit s1
      in if startsWith s2 ''.'' then dropWhile isDigit (tl s2) else s2)"

definition sortUnitValuesSpec :: "(string \<Rightarrow> string \<Rightarrow> int) \<Rightarrow> string \<Rightarrow> string \<Rightarrow> jsnum" where
  "sortUnitValuesSpec localeCompare item1 item2 =
     (if unitSuffix item1 \<noteq> unitSuffix item2
      then Dec (localeCompare (unitSuffix item1) (unitSuffix item2)) 0
      else num_sub (parseFloat item1) (parseFloat item2))"

text \<open>
  The value of \<open>Dec m e\<close> as a rational number, and the order of the numbers:
  \<^verbatim>\<open>-Infinity\<close> below the finite values in their order, \<^verbatim>\<open>Infinity\<close>
  above, \<^verbatim>\<open>NaN\<close> related to nothing.
\<close>

definition dec_val :: "int \<Rightarrow> int \<Rightarrow> rat" where
  "dec_val m e = of_int m * 10 powi e"





section \<open>Example documents\<close>

text \<open>Declarations \<^verbatim>\<open>color:#000\9\<close> and \<^verbatim>\<open>color:#000\<close>.\<close>

definition hackExample :: StyleGuide where
  "hackExample =
     \<lparr>cssAst = [],
      properties = [''color'' \<mapsto> [''#000'' @ [CHR 0x5C, CHR ''9''], ''#000'']],
      getAllFontSizes = [], getAllFontFamilies = []\<rparr>"

text \<open>Declarations \<^verbatim>\<open>color:red\<close>, \<^verbatim>\<open>color:#000\<close>,
  \<^verbatim>\<open>background-color:blue\<close> and \<^verbatim>\<open>background-color:red\<close>.\<close>

definition colorExample :: StyleGuide where
  "colorExample =
     \<lparr>cssAst = [],
      properties =
        [''color'' \<mapsto> [''red'', ''#000''], ''background-color'' \<mapsto> [''blue'', ''red'']],
      getAllFontSizes = [], getAllFontFamilies = []\<rparr>"

text \<open>
  The style sheet \<^verbatim>\<open>@font-face{font-family:"Open Sans";src:url(fonts/open-sans.woff?v=1) format("woff")}\<close>,
  with no rule that uses the family: the parser's node and the aggregator's lists.
  \<open>fontExample\<close> adds a rule \<^verbatim>\<open>body{font-family:Arial, sans-serif}\<close> and a font
  face for \<^verbatim>\<open>Arial\<close>.
\<close>

definition quotedOpenSans :: string where
  "quotedOpenSans = CHR 0x22 # ''Open Sans'' @ [CHR 0x22]"

definition openSansSrc :: string where
  "openSansSrc = ''url(fonts/open-sans.woff?v=1) format('' @ [CHR 0x22] @ ''woff'' @ [CHR 0x22] @ '')''"


definition fontExample :: StyleGuide where
  "fontExample =
     \<lparr>cssAst =
        [Rule [''body''] [Declaration ''font-family'' ''Arial, sans-serif''],
         FontFace [Declaration ''font-family'' quotedOpenSans, Declaration ''src'' openSansSrc],
         FontFace [Declaration ''font-family'' ''Arial'', Declaration ''src'' ''url(arial.woff)'']],
      properties = [''font-family'' \<mapsto> [''Arial, sans-serif'']],
      getAllFontSizes = [], getAllFontFamilies = [''Arial, sans-serif'']\<rparr>"

text \<open>Two rules \<^verbatim>\<open>a{font-family:inherit}\<close> and \<^verbatim>\<open>b{font-family:inherit}\<close>.\<close>

definition familiesExample :: StyleGuide where
  "familiesExample =
     \<lparr>cssAst =
        [Rule [''a''] [Declaration ''font-family'' ''inherit''],
         Rule [''b''] [Declaration ''font-family'' ''inherit'']],
      properties = [''font-family'' \<mapsto> [''inherit'', ''inherit'']],
      getAllFontSizes = [], getAllFontFamilies = [''inherit'', ''inherit'']\<rparr>"


text \<open>A collation for the examples: the comparison of the code units.\<close>

definition codeUnitCompare :: "string \<Rightarrow> string \<Rightarrow> int" where
  "codeUnitCompare a b = (if a < b then - 1 else if a = b then 0 else 1)"

text \<open>The rule \<^verbatim>\<open>p{margin:10px 5px 10px 5px}\<close>, no padding anywhere.\<close>

definition marginExample :: StyleGuide where
  "marginExample =
     \<lparr>cssAst = [Rule [''p''] [Declaration ''margin'' ''10px 5px 10px 5px'']],
      properties = [''margin'' \<mapsto> [''10px 5px 10px 5px'']],
      getAllFontSizes = [], getAllFontFamilies = []\<rparr>"








section \<open>Properties\<close>

subsection \<open>Arrays without duplicates\<close>

lemma indexOf_ge: "- 1 \<le> indexOf xs v"
  by (induction xs) (auto simp: Let_def)

lemma indexOf_neg_iff: "indexOf xs v < 0 \<longleftrightarrow> v \<notin> set xs"
proof (induction xs)
  case Nil
  show ?case by simp
next
  case (Cons x xs)
  then show ?case
    using indexOf_ge [of xs v] by (auto simp: Let_def)
qed

lemma indexOf_append_hit:
  "indexOf (pre @ x # xs) x = int (length pre) \<longleftrightarrow> x \<notin> set pre"
proof (induction pre)
  case Nil
  show ?case by simp
next
  case (Cons p pre)
  have "0 \<le> indexOf (pre @ x # xs) x"
    using indexOf_neg_iff [of "pre @ x # xs" x] by auto
  with Cons show ?case
    by (auto simp: Let_def)
qed

lemma filterIndexed_keepNew:
  "filterIndexed (\<lambda>element index. indexOf (pre @ xs) element = index) (int (length pre)) xs
     = keepNew pre xs"
proof (induction xs arbitrary: pre)
  case Nil
  show ?case by simp
next
  case (Cons x xs)
  have "filterIndexed (\<lambda>element index. indexOf ((pre @ [x]) @ xs) element = index)
          (int (length (pre @ [x]))) xs = keepNew (pre @ [x]) xs"
    by (rule Cons.IH)
  then have step: "filterIndexed (\<lambda>element index. indexOf (pre @ x # xs) element = index)
          (int (length pre) + 1) xs = keepNew (pre @ [x]) xs"
    by (simp add: add.commute)
  show ?case
    by (simp add: indexOf_append_hit step)
qed

lemma unique_keepNew: "unique xs = keepNew [] xs"
  using filterIndexed_keepNew [of "[]" xs] by (simp add: unique_def)

lemma set_keepNew: "set (keepNew seen xs) = set xs - set seen"
  by (induction xs arbitrary: seen) auto

lemma distinct_keepNew: "distinct (keepNew seen xs)"
  by (induction xs arbitrary: seen) (auto simp: set_keepNew)

lemma set_unique: "set (unique xs) = set xs"
  by (simp add: unique_keepNew set_keepNew)

lemma distinct_unique: "distinct (unique xs)"
  by (simp add: unique_keepNew distinct_keepNew)

lemma keepNew_distinct: "distinct xs \<Longrightarrow> set xs \<inter> set seen = {} \<Longrightarrow> keepNew seen xs = xs"
  by (induction xs arbitrary: seen) auto

lemma unique_idem: "unique (unique xs) = unique xs"
  by (simp add: unique_keepNew keepNew_distinct distinct_keepNew)

lemma excluded_iff: "indexOf excludedValues item < 0 \<longleftrightarrow> item \<notin> set excludedValues"
  by (rule indexOf_neg_iff)

lemma set_extractColors:
  "set (extractColors vs) = {c \<in> set vs. c \<noteq> [] \<and> \<not> isHackyColor c \<and> c \<notin> set excludedValues}"
  by (auto simp: extractColors_def Let_def set_unique excluded_iff filter_empty_conv)

lemma distinct_extractColors: "distinct (extractColors vs)"
  by (simp add: extractColors_def Let_def distinct_unique)

lemma sorted_extractColors: "sorted (extractColors vs)"
  by (simp add: extractColors_def Let_def)

subsection \<open>Colors\<close>

lemma isHackyColor_hash: "isHackyColor (CHR ''#'' # r) \<longleftrightarrow> \<not> hexDigits3or6 r"
  by (auto simp: isHackyColor_def hexColorTest_def hexDigits3or6_def)

lemma hexColor_not_excluded: "CHR ''#'' # r \<notin> set excludedValues"
  by (simp add: excludedValues_def)

lemma set_getColors:
  "set (getColors sg) = set (getColorColors sg) \<union> set (getBackgroundColors sg)"
  by (simp add: getColors_def set_unique)

lemma distinct_getColors: "distinct (getColors sg)"
  by (simp add: getColors_def distinct_unique)

lemma sorted_getColors: "sorted (getColors sg)"
  by (simp add: getColors_def)

lemmas color_eval = getColorColors_def getBackgroundColors_def propertyValues_def
  extractColors_def isHackyColor_def hexColorTest_def isHexDigit_def unique_def
  excludedValues_def getColors_def

lemma hackExample_colors: "getColorColors hackExample = [''#000'']"
  by (simp add: hackExample_def color_eval)

lemma colorExample_text: "getColorColors colorExample = [''#000'', ''red'']"
  by (simp add: colorExample_def color_eval)

lemma colorExample_bg: "getBackgroundColors colorExample = [''blue'', ''red'']"
  by (simp add: colorExample_def color_eval)

lemma distinct_count_list: "distinct xs \<Longrightarrow> count_list xs x = (if x \<in> set xs then 1 else 0)"
  by (induction xs) auto

text \<open>
  Claim C2. \<open>getColors\<close> is the sorted list without duplicates of the union of
  \<open>getColorColors\<close> (the text colors) and \<open>getBackgroundColors\<close>: it is the ascending list
  of that set in the order of the strings, every element of either list occurs in it
  exactly once, and nothing else occurs in it.
\<close>

theorem colors_sorted_union:
  "getColors sg = sorted_list_of_set (set (getColorColors sg) \<union> set (getBackgroundColors sg))
   \<and> count_list (getColors sg) c
       = (if c \<in> set (getColorColors sg) \<union> set (getBackgroundColors sg) then 1 else 0)"
proof
  have "sorted_list_of_set (set (getColors sg)) = getColors sg"
    using sorted_getColors distinct_getColors by (rule sorted_list_of_set.idem_if_sorted_distinct)
  then show "getColors sg
      = sorted_list_of_set (set (getColorColors sg) \<union> set (getBackgroundColors sg))"
    by (simp add: set_getColors)
  show "count_list (getColors sg) c
       = (if c \<in> set (getColorColors sg) \<union> set (getBackgroundColors sg) then 1 else 0)"
    using distinct_count_list [OF distinct_getColors, of sg c] by (simp add: set_getColors)
qed

theorem colors_sorted_union_witness:
  "count_list (getColors colorExample) ''red'' = 1
   \<and> count_list (getColors colorExample) ''green'' = 0"
  using colors_sorted_union [THEN conjunct2, of colorExample "''red''"]
    colors_sorted_union [THEN conjunct2, of colorExample "''green''"]
  by (simp add: colorExample_text colorExample_bg)

text \<open>
  Claim C7. A color \<^verbatim>\<open>#\<close>\<open>r\<close> whose remainder \<open>r\<close> is not exactly three or exactly
  six hexadecimal digits is in none of the three color lists. A well-formed one that is
  among the values of \<^verbatim>\<open>color\<close> is a text color, one among the values of
  \<^verbatim>\<open>background-color\<close> is a background color, and both are in the combined list.
  With the declarations \<^verbatim>\<open>color:#000\9\<close> and \<^verbatim>\<open>color:#000\<close> the text colors
  are the one entry \<^verbatim>\<open>#000\<close>.
\<close>

theorem hacky_hex_never_listed:
  "(\<not> hexDigits3or6 r \<longrightarrow>
      CHR ''#'' # r \<notin> set (getColorColors sg) \<and> CHR ''#'' # r \<notin> set (getBackgroundColors sg)
      \<and> CHR ''#'' # r \<notin> set (getColors sg))
   \<and> (hexDigits3or6 r \<and> CHR ''#'' # r \<in> set (propertyValues sg ''color'') \<longrightarrow>
      CHR ''#'' # r \<in> set (getColorColors sg) \<and> CHR ''#'' # r \<in> set (getColors sg))
   \<and> (hexDigits3or6 r \<and> CHR ''#'' # r \<in> set (propertyValues sg ''background-color'') \<longrightarrow>
      CHR ''#'' # r \<in> set (getBackgroundColors sg) \<and> CHR ''#'' # r \<in> set (getColors sg))
   \<and> getColorColors hackExample = [''#000'']"
  by (simp add: set_getColors getColorColors_def getBackgroundColors_def set_extractColors
      isHackyColor_hash hexColor_not_excluded hackExample_colors [unfolded getColorColors_def])

theorem hacky_hex_never_listed_witness:
  "''#000'' @ [CHR 0x5C, CHR ''9''] \<notin> set (getColors hackExample)
   \<and> ''#000'' \<in> set (getColors hackExample)"
  using hacky_hex_never_listed [of "''000'' @ [CHR 0x5C, CHR ''9'']" hackExample]
    hacky_hex_never_listed [of "''000''" hackExample]
  by (simp add: hexDigits3or6_def isHexDigit_def propertyValues_def hackExample_def)

subsection \<open>Splitting and trimming\<close>

lemma split_nonempty: "split sep s \<noteq> []"
  by (induction s) (auto split: list.splits)

lemma split_no_sep: "t \<in> set (split sep s) \<Longrightarrow> sep \<notin> set t"
proof (induction s arbitrary: t)
  case Nil
  then show ?case by simp
next
  case (Cons c cs)
  then show ?case
    by (auto split: if_splits list.splits)
qed

lemma split_without_sep: "sep \<notin> set s \<Longrightarrow> split sep s = [s]"
  by (induction s) auto

lemma set_trim: "set (trim s) \<subseteq> set s"
proof -
  have "set (dropWhile isWhiteSpace (rev (dropWhile isWhiteSpace s))) \<subseteq> set (rev (dropWhile isWhiteSpace s))"
    by (rule set_dropWhileD [THEN subsetI])
  also have "\<dots> \<subseteq> set s"
    using set_dropWhileD [of _ isWhiteSpace s] by auto
  finally show ?thesis by (simp add: trim_def)
qed

lemma last_dropWhile: "dropWhile P xs \<noteq> [] \<Longrightarrow> last (dropWhile P xs) = last xs"
  by (induction xs) (auto split: if_splits)

lemma dropWhile_fix: "xs = [] \<or> \<not> P (hd xs) \<Longrightarrow> dropWhile P xs = xs"
  by (cases xs) auto

lemma hd_dropWhile_not: "dropWhile P xs = [] \<or> \<not> P (hd (dropWhile P xs))"
  using hd_dropWhile [of P xs] by blast

lemma hd_rev_dropWhile_rev:
  assumes "rev (dropWhile P (rev u)) \<noteq> []"
  shows "hd (rev (dropWhile P (rev u))) = hd u"
proof -
  define r where "r = dropWhile P (rev u)"
  have r: "r \<noteq> []" using assms by (simp add: r_def)
  have u: "u \<noteq> []"
  proof
    assume "u = []"
    then have "r = []" by (simp add: r_def)
    with r show False by simp
  qed
  have "hd (rev r) = last r"
    using r by (simp add: hd_rev)
  also have "\<dots> = last (rev u)"
    using r unfolding r_def by (rule last_dropWhile)
  also have "\<dots> = hd u"
    using u by (simp add: last_rev)
  finally show ?thesis by (simp add: r_def)
qed

lemma trim_no_leading: "trim s = [] \<or> \<not> isWhiteSpace (hd (trim s))"
proof (cases "trim s = []")
  case True
  then show ?thesis by simp
next
  case False
  define u where "u = dropWhile isWhiteSpace s"
  have t: "trim s = rev (dropWhile isWhiteSpace (rev u))"
    by (simp add: trim_def u_def)
  have hd: "hd (trim s) = hd u"
    using False unfolding t by (rule hd_rev_dropWhile_rev)
  have "u \<noteq> []"
    using False unfolding t by auto
  then have "\<not> isWhiteSpace (hd u)"
    unfolding u_def using hd_dropWhile [of isWhiteSpace s] by blast
  then show ?thesis by (simp add: hd)
qed

lemma trim_idem: "trim (trim s) = trim s"
proof -
  have a: "dropWhile isWhiteSpace (trim s) = trim s"
    using trim_no_leading [of s] by (rule dropWhile_fix)
  have "rev (trim s) = dropWhile isWhiteSpace (rev (dropWhile isWhiteSpace s))"
    by (simp add: trim_def)
  then have b: "dropWhile isWhiteSpace (rev (trim s)) = rev (trim s)"
    by (simp add: dropWhile_idem)
  show ?thesis
    unfolding trim_def [of "trim s"] a b by simp
qed

lemma foldl_append_step:
  "foldl (\<lambda>previous x. previous @ f x) acc xs = acc @ concat (map f xs)"
  by (induction xs arbitrary: acc) auto

lemma splitFonts_concat:
  "splitFonts families = concat (map (\<lambda>fontFamily. map trim (split CHR '','' fontFamily)) families)"
  by (simp add: splitFonts_def foldl_append_step)

lemma splitFonts_token:
  assumes "f \<in> set (splitFonts families)"
  shows "CHR '','' \<notin> set f \<and> trim f = f"
proof -
  from assms obtain fam t where t: "t \<in> set (split CHR '','' fam)" and f: "f = trim t"
    by (auto simp: splitFonts_concat)
  have "CHR '','' \<notin> set t" using t by (rule split_no_sep)
  then have "CHR '','' \<notin> set f" using set_trim [of t] f by auto
  then show ?thesis by (simp add: f trim_idem)
qed

lemma splitFonts_fix:
  "(\<And>f. f \<in> set fs \<Longrightarrow> CHR '','' \<notin> set f \<and> trim f = f) \<Longrightarrow> splitFonts fs = fs"
  unfolding splitFonts_concat
  by (induction fs) (auto simp: split_without_sep)

lemma set_getFontsInUse: "set (getFontsInUse sg) = set (splitFonts (getFontFamilies sg))"
  by (simp add: getFontsInUse_def set_unique)

lemma distinct_getFontsInUse: "distinct (getFontsInUse sg)"
  by (simp add: getFontsInUse_def distinct_unique)

lemma splitFonts_getFontsInUse: "splitFonts (getFontsInUse sg) = getFontsInUse sg"
  by (rule splitFonts_fix) (simp add: set_getFontsInUse splitFonts_token)

lemma unique_distinct: "distinct xs \<Longrightarrow> unique xs = xs"
  by (simp add: unique_keepNew keepNew_distinct)

lemma getFontsNotInUse_filter:
  "getFontsNotInUse sg
     = filter (\<lambda>font. font \<notin> set (getFontsInUse sg)) (objectKeys (getFontUrls sg))"
  by (simp add: getFontsNotInUse_def Let_def splitFonts_getFontsInUse unique_distinct
      distinct_getFontsInUse indexOf_neg_iff)

subsection \<open>The font map\<close>

lemma addFontFace_hashSet: "addFontFace h r = hashSet h (fontFaceKey r) (fontFaceUrl r)"
  by (simp add: addFontFace_def fontFaceKey_def fontFaceUrl_def Let_def split: sum.splits)


lemma keys_hashUpdate: "fst ` set (hashUpdate k v h) = insert k (fst ` set h)"
  by (induction h) auto

lemma distinct_hashUpdate: "distinct (map fst h) \<Longrightarrow> distinct (map fst (hashUpdate k v h))"
  by (induction h) (auto simp: keys_hashUpdate)

lemma distinct_hashSet: "distinct (map fst h) \<Longrightarrow> distinct (map fst (hashSet h k v))"
  by (simp add: hashSet_def distinct_hashUpdate)

lemma distinct_foldl_addFontFace:
  "distinct (map fst h) \<Longrightarrow> distinct (map fst (foldl addFontFace h rs))"
  by (induction rs arbitrary: h) (simp_all add: addFontFace_hashSet distinct_hashSet)

lemma distinct_getFontUrls: "distinct (map fst (getFontUrls sg))"
  by (simp add: getFontUrls_def distinct_foldl_addFontFace)


lemma distinct_objectKeys: "distinct (map fst h) \<Longrightarrow> distinct (objectKeys h)"
  by (auto simp: objectKeys_def distinct_map_filter)









subsection \<open>Sorting and spacings\<close>

lemma set_insertBy: "set (insertBy cmp x ys) = insert x (set ys)"
  by (induction ys) auto

lemma set_sortBy: "set (sortBy cmp xs) = set xs"
  by (induction xs) (simp_all add: sortBy_def set_insertBy)

lemma distinct_insertBy: "distinct (insertBy cmp x ys) \<longleftrightarrow> x \<notin> set ys \<and> distinct ys"
  by (induction ys) (auto simp: set_insertBy)

lemma distinct_sortBy: "distinct (sortBy cmp xs) \<longleftrightarrow> distinct xs"
  by (induction xs) (simp_all add: sortBy_def distinct_insertBy set_sortBy [unfolded sortBy_def])

lemma length_insertBy: "length (insertBy cmp x ys) = Suc (length ys)"
  by (induction ys) auto

lemma length_sortBy: "length (sortBy cmp xs) = length xs"
  by (induction xs) (simp_all add: sortBy_def length_insertBy)

lemma filter_truthy_Str: "filter truthy (map Str vs) = map Str (filter (\<lambda>v. v \<noteq> []) vs)"
  by (induction vs) (simp_all add: truthy_def)

lemma foldl_addTokens:
  "foldl addTokens (Inr acc) (map Str vs) = Inr (acc @ concat (map (split CHR '' '') vs))"
  by (induction vs arbitrary: acc) (simp_all add: addTokens_def splitValue_def)

lemma spacings_truthy:
  "filter truthy
     ((case properties sg ''margin'' of None \<Rightarrow> [] | Some m \<Rightarrow> map Str m)
      @ (case properties sg ''padding'' of None \<Rightarrow> [Undefined] | Some p \<Rightarrow> map Str p))
   = map Str (filter (\<lambda>v. v \<noteq> []) (propertyValues sg ''margin'' @ propertyValues sg ''padding''))"
  by (simp add: propertyValues_def filter_truthy_Str truthy_def split: option.splits)

lemma getSpacings_eq:
  "getSpacings lc sg
     = Inr (rev (sortBy (sortUnitValues lc)
              (filter (\<lambda>item. item \<notin> set excludedValues) (unique (spacingTokens sg)))))"
proof -
  define vs where "vs = filter (\<lambda>v. v \<noteq> []) (propertyValues sg ''margin'' @ propertyValues sg ''padding'')"
  have tokens: "spacingTokens sg = concat (map (split CHR '' '') vs)"
    by (simp add: spacingTokens_def vs_def)
  show ?thesis
  proof (cases "vs = []")
    case True
    then show ?thesis
      unfolding getSpacings_def spacings_truthy vs_def [symmetric] tokens
      by (simp add: unique_def sortBy_def)
  next
    case False
    then show ?thesis
      unfolding getSpacings_def spacings_truthy vs_def [symmetric] tokens
      by (simp add: foldl_addTokens indexOf_neg_iff)
  qed
qed


subsection \<open>The example documents of the fonts\<close>

lemmas url_eval = urlMatchAt_def startsWithUrl_def closesUrl_def isQuote_def isLineTerminator_def
  isWhiteSpace_def firstUrl_def lastValueOf_def pop_def isDeclarationOf_def blockDeclarations_def
  addFontFace_def toPropertyKey_def hashSet_def getFontUrls_def isFontFace_def

lemma openSans_url: "urlMatch openSansSrc = Some ''fonts/open-sans.woff''"
  by (simp add: openSansSrc_def url_eval)


lemma arial_url: "urlMatch ''url(arial.woff)'' = Some ''arial.woff''"
  by (simp add: url_eval)

lemma fontExample_fontUrls:
  "getFontUrls fontExample = [(quotedOpenSans, ''fonts/open-sans.woff''), (''Arial'', ''arial.woff'')]"
  by (simp add: fontExample_def url_eval openSans_url arial_url quotedOpenSans_def)

lemma fontExample_inUse: "getFontsInUse fontExample = [''Arial'', ''sans-serif'']"
  by (simp add: fontExample_def getFontsInUse_def getFontFamilies_def splitFonts_def trim_def
      isWhiteSpace_def unique_def)

lemmas keys_eval = objectKeys_def isArrayIndex_def isDigit_def

lemma fontExample_notInUse: "getFontsNotInUse fontExample = [quotedOpenSans]"
  by (simp add: getFontsNotInUse_filter fontExample_fontUrls fontExample_inUse keys_eval
      quotedOpenSans_def)



subsection \<open>Fonts in use and not in use\<close>

text \<open>
  Claim C8. No string is both in \<open>getFontsInUse\<close> and in \<open>getFontsNotInUse\<close>.
\<close>

theorem fonts_in_use_disjoint:
  "set (getFontsInUse sg) \<inter> set (getFontsNotInUse sg) = {}"
  by (auto simp: getFontsNotInUse_filter)

theorem fonts_in_use_disjoint_witness:
  "getFontsInUse fontExample = [''Arial'', ''sans-serif'']
   \<and> getFontsNotInUse fontExample = [quotedOpenSans]
   \<and> {''Arial'', ''sans-serif''} \<inter> {quotedOpenSans} = {}"
  using fonts_in_use_disjoint [of fontExample]
  by (simp add: fontExample_inUse fontExample_notInUse)

subsection \<open>The keys and values of the font map\<close>





subsection \<open>No operation raises\<close>







lemma marginExample_spacings:
  "getSpacings codeUnitCompare marginExample = Inr [''10px'', ''5px'']"
  by (simp add: getSpacings_eq spacingTokens_def propertyValues_def marginExample_def unique_def
      excludedValues_def sortBy_def sortUnitValues_def removeNumberAndRest_def isNumberChar_def
      isDigit_def isLineTerminator_def isPositive_def
      parseFloat_def isWhiteSpace_def digitsValue_def digitValue_def exponentPart_def
      num_sub_def num_sgn_def)


subsection \<open>The tokens of the spacings\<close>


lemma distinct_getSpacings: "distinct (projr (getSpacings lc sg))"
  by (simp add: getSpacings_eq distinct_sortBy distinct_unique)




subsection \<open>Duplicates and excluded values\<close>

lemma extractColors_not_excluded: "set (extractColors vs) \<inter> set excludedValues = {}"
  by (auto simp: set_extractColors)

lemma distinct_getFontsNotInUse: "distinct (getFontsNotInUse sg)"
  by (simp add: getFontsNotInUse_filter distinct_objectKeys distinct_getFontUrls)

lemma familiesExample_families: "getFontFamilies familiesExample = [''inherit'', ''inherit'']"
  by (simp add: getFontFamilies_def familiesExample_def)

lemma familiesExample_inUse: "getFontsInUse familiesExample = [''inherit'']"
  by (simp add: getFontsInUse_def familiesExample_families splitFonts_def trim_def
      isWhiteSpace_def unique_def)

text \<open>
  Claim C1, as the code has it. The color lists, the font sizes and the spacings hold
  no duplicate and none of the excluded values. The fonts in use, the fonts not in use
  and their concatenation hold no duplicate (the excluded values are not removed from
  them). \<open>getFontFamilies\<close> is the aggregator's list as it is.
\<close>

theorem value_lists_distinct:
  "distinct (getBackgroundColors sg) \<and> set (getBackgroundColors sg) \<inter> set excludedValues = {}
   \<and> distinct (getColorColors sg) \<and> set (getColorColors sg) \<inter> set excludedValues = {}
   \<and> distinct (getColors sg) \<and> set (getColors sg) \<inter> set excludedValues = {}
   \<and> distinct (getFontSizes sg) \<and> set (getFontSizes sg) \<inter> set excludedValues = {}
   \<and> (\<exists>tokens. getSpacings lc sg = Inr tokens \<and> distinct tokens
         \<and> set tokens \<inter> set excludedValues = {})
   \<and> distinct (getFontsInUse sg) \<and> distinct (getFontsNotInUse sg) \<and> distinct (getFonts sg)
   \<and> getFontFamilies sg = getAllFontFamilies sg"
proof (intro conjI)
  show "distinct (getBackgroundColors sg)"
    by (simp add: getBackgroundColors_def distinct_extractColors)
  show "set (getBackgroundColors sg) \<inter> set excludedValues = {}"
    by (simp add: getBackgroundColors_def extractColors_not_excluded)
  show "distinct (getColorColors sg)"
    by (simp add: getColorColors_def distinct_extractColors)
  show "set (getColorColors sg) \<inter> set excludedValues = {}"
    by (simp add: getColorColors_def extractColors_not_excluded)
  show "distinct (getColors sg)"
    by (rule distinct_getColors)
  show "set (getColors sg) \<inter> set excludedValues = {}"
    by (simp add: set_getColors getColorColors_def getBackgroundColors_def Int_Un_distrib2
        extractColors_not_excluded)
  show "distinct (getFontSizes sg)"
    by (simp add: getFontSizes_def distinct_unique)
  show "set (getFontSizes sg) \<inter> set excludedValues = {}"
    by (auto simp: getFontSizes_def indexOf_neg_iff)
  show "\<exists>tokens. getSpacings lc sg = Inr tokens \<and> distinct tokens
         \<and> set tokens \<inter> set excludedValues = {}"
    by (auto simp: getSpacings_eq distinct_sortBy distinct_unique set_sortBy)
  show "distinct (getFontsInUse sg)"
    by (rule distinct_getFontsInUse)
  show "distinct (getFontsNotInUse sg)"
    by (rule distinct_getFontsNotInUse)
  show "distinct (getFonts sg)"
  proof -
    have "set (getFontsInUse sg) \<inter> set (getFontsNotInUse sg) = {}"
      by (auto simp: getFontsNotInUse_filter)
    then show ?thesis
      by (simp add: getFonts_def distinct_getFontsInUse distinct_getFontsNotInUse)
  qed
  show "getFontFamilies sg = getAllFontFamilies sg"
    by (simp add: getFontFamilies_def)
qed


theorem value_lists_distinct_witness:
  "distinct (getFontsInUse fontExample @ getFontsNotInUse fontExample)
   \<and> getFonts fontExample = [''Arial'', ''sans-serif'', quotedOpenSans]
   \<and> getSpacings codeUnitCompare marginExample = Inr [''10px'', ''5px'']"
  using value_lists_distinct [of fontExample codeUnitCompare]
  by (simp add: getFonts_def fontExample_inUse fontExample_notInUse marginExample_spacings)

text \<open>
  Two rules with \<^verbatim>\<open>font-family:inherit\<close>: the list of the font families holds the
  excluded value \<^verbatim>\<open>inherit\<close>, and holds it twice; the fonts in use hold it as well.
\<close>

theorem font_families_counterexample:
  "getFontFamilies familiesExample = [''inherit'', ''inherit'']
   \<and> \<not> distinct (getFontFamilies familiesExample)
   \<and> ''inherit'' \<in> set excludedValues
   \<and> getFontsInUse familiesExample = [''inherit'']"
  by (simp add: familiesExample_families familiesExample_inUse excludedValues_def)

subsection \<open>The root font size\<close>




lemma pop_snoc: "pop (xs @ [x]) = Some x"
  by (simp add: pop_def)






lemmas num_eval = parseFloat_def isWhiteSpace_def isDigit_def digitsValue_def digitValue_def
  exponentPart_def num_to_string_def positiveToString_def natDigits.simps digitChar_def
  stripZeros.simps num_mul_def num_div100_def num_sub_def num_sgn_def









subsection \<open>The comparison of units and values\<close>

text \<open>
  The expression \<^verbatim>\<open>/([-\d.]+).*/\<close> matches the number and everything behind it, so
  the unit \<open>sortUnitValues\<close> computes for a token that starts with a number is empty.
\<close>

lemma number_token_unit_empty:
  "isNumberChar c \<Longrightarrow> list_all (\<lambda>x. \<not> isLineTerminator x) s \<Longrightarrow>
     removeNumberAndRest (c # s) = []"
  by (auto simp: removeNumberAndRest_def list_all_iff isNumberChar_def isDigit_def
      isLineTerminator_def)

lemmas unit_eval = sortUnitValues_def removeNumberAndRest_def isNumberChar_def
  isLineTerminator_def unitSuffix_def sortUnitValuesSpec_def

text \<open>
  Claim C4. For the tokens \<^verbatim>\<open>10em\<close> and \<^verbatim>\<open>2pt\<close> the units differ, so
  the comparison by units first, as \<open>sortUnitValuesSpec\<close> makes it, returns what the
  collation says of \<^verbatim>\<open>em\<close> and \<^verbatim>\<open>pt\<close>. \<open>sortUnitValues\<close> finds both
  units empty and returns \<open>10 - 2\<close>, whatever the collation: it puts \<^verbatim>\<open>2pt\<close>
  before \<^verbatim>\<open>10em\<close>, and the reversed list of the two starts with \<^verbatim>\<open>10em\<close>.
\<close>

theorem unit_comparator_ignores_units:
  "removeNumberAndRest ''10em'' = [] \<and> removeNumberAndRest ''2pt'' = []
   \<and> unitSuffix ''10em'' = ''em'' \<and> unitSuffix ''2pt'' = ''pt''
   \<and> sortUnitValues lc ''10em'' ''2pt'' = Dec 8 0
   \<and> sortUnitValuesSpec lc ''10em'' ''2pt'' = Dec (lc ''em'' ''pt'') 0
   \<and> filterScalableFontSizes lc [''10em'', ''2pt''] = [''10em'', ''2pt'']"
  by (simp add: unit_eval num_eval filterScalableFontSizes_def sortBy_def isPositive_def)

subsection \<open>The scaled font sizes\<close>





















subsection \<open>Printing a number and reading it back\<close>

























lemma dec_val_sign: "0 < dec_val m e \<longleftrightarrow> 0 < m" "dec_val m e = 0 \<longleftrightarrow> m = 0"
  "dec_val m e < 0 \<longleftrightarrow> m < 0"
proof -
  have pos: "(0::rat) < 10 powi e" by (simp add: zero_less_power_int)
  then have npos: "\<not> (10::rat) powi e < 0" "(10::rat) powi e \<noteq> 0" by linarith+
  show "0 < dec_val m e \<longleftrightarrow> 0 < m"
    using pos npos by (simp add: dec_val_def zero_less_mult_iff)
  show "dec_val m e = 0 \<longleftrightarrow> m = 0"
    using npos by (simp add: dec_val_def)
  show "dec_val m e < 0 \<longleftrightarrow> m < 0"
    using pos npos by (simp add: dec_val_def mult_less_0_iff)
qed




lemma sgn_dec_val:
  assumes "dec_val m1 e1 = dec_val m2 e2"
  shows "sgn m1 = sgn m2"
proof -
  have "0 < m1 \<longleftrightarrow> 0 < m2"
    using dec_val_sign(1) [of m1 e1] dec_val_sign(1) [of m2 e2] assms by simp
  moreover have "m1 = 0 \<longleftrightarrow> m2 = 0"
    using dec_val_sign(2) [of m1 e1] dec_val_sign(2) [of m2 e2] assms by simp
  ultimately show ?thesis by (simp add: sgn_if)
qed

















end
